theory Spec2Isabelle
  imports Complex_Main "HOL-Library.Word" "HOL-Library.AList"
begin

section \<open>Python values, errors and the environment of the module\<close>

text \<open>
  The model follows \<^verbatim>\<open>electrum/constants.py\<close>. Python integers are unbounded, so
  they are \<^typ>\<open>int\<close>. A raised exception is the left summand of a result.
\<close>

datatype py_error =
    NameError string
  | TypeError string
  | ValueError string
  | AttributeError string

text \<open>
  \<^verbatim>\<open>Union[int, float]\<close>: an integer, or a float literal given by the rational its decimal
  digits denote (the double it rounds to has the same sign and is not read otherwise).
\<close>

datatype py_num = PyInt int | PyFloat rat

fun num_value :: "py_num \<Rightarrow> rat" where
  "num_value (PyInt i) = of_int i"
| "num_value (PyFloat r) = r"

text \<open>
  What \<^verbatim>\<open>json.loads\<close> returns: \<^verbatim>\<open>null\<close> is Python's \<^verbatim>\<open>None\<close>, an object is a
  \<^verbatim>\<open>dict\<close> (its items in insertion order), an array is a \<^verbatim>\<open>list\<close>.
\<close>

datatype json =
    JNull
  | JBool bool
  | JNum py_num
  | JStr string
  | JList "json list"
  | JDict "(string \<times> json) list"

type_synonym byte = "8 word"

text \<open>
  The module reads its bundled resources from the directory it lives in. The file system
  and the standard library's JSON parser are outside the module, so they are parameters:
  \<open>read_file\<close> is \<^verbatim>\<open>open(path, 'r')\<close> followed by \<^verbatim>\<open>f.read()\<close>, and \<open>json_loads\<close>
  is \<^verbatim>\<open>json.loads\<close>; each gives \<open>None\<close> where the Python call raises.
\<close>

record py_env =
  module_dir :: string
  read_file :: "string \<Rightarrow> string option"
  json_loads :: "string \<Rightarrow> json option"

text \<open>\<^verbatim>\<open>os.path.join\<close> of two components (POSIX).\<close>

definition path_join :: "string \<Rightarrow> string \<Rightarrow> string" where
  "path_join a b =
     (if b \<noteq> [] \<and> hd b = CHR ''/'' then b
      else if a = [] \<or> last a = CHR ''/'' then a @ b
      else a @ ''/'' @ b)"

text \<open>
  \<^verbatim>\<open>read_json(filename, default)\<close>: the bare \<^verbatim>\<open>except:\<close> catches whatever the
  \<^verbatim>\<open>try\<close> block raises, so the function itself has no error result.
\<close>

definition read_json :: "py_env \<Rightarrow> string \<Rightarrow> json \<Rightarrow> json" where
  "read_json env filename dflt =
     (case read_file env (path_join (module_dir env) filename) of
        None \<Rightarrow> dflt
      | Some txt \<Rightarrow> (case json_loads env txt of None \<Rightarrow> dflt | Some r \<Rightarrow> r))"

text \<open>\<^verbatim>\<open>len(x)\<close> on a value of a resource: sized for lists, dicts and strings only.\<close>

fun py_len :: "json \<Rightarrow> py_error + int" where
  "py_len (JList xs) = Inr (int (length xs))"
| "py_len (JDict kvs) = Inr (int (length kvs))"
| "py_len (JStr s) = Inr (int (length s))"
| "py_len JNull = Inl (TypeError ''object of type NoneType has no len()'')"
| "py_len (JBool b) = Inl (TypeError ''object of type bool has no len()'')"
| "py_len (JNum n) = Inl (TypeError ''object of this number type has no len()'')"

section \<open>Dictionaries\<close>

text \<open>
  A \<^verbatim>\<open>dict\<close> is the list of its items in insertion order, one item per key. Storing
  under a key that is present replaces the value in place, storing under a new key appends:
  this is \<^const>\<open>AList.update\<close>.
\<close>

type_synonym ('k, 'v) py_dict = "('k \<times> 'v) list"

text \<open>A dict display \<^verbatim>\<open>{k1: v1, k2: v2, ...}\<close>: the items are stored from left to right.\<close>

definition dict_display :: "('k \<times> 'v) list \<Rightarrow> ('k, 'v) py_dict" where
  "dict_display items = fold (\<lambda>(k, v) d. AList.update k v d) items []"

text \<open>\<^verbatim>\<open>d[k]\<close> as a lookup that may miss.\<close>

definition dict_get :: "('k, 'v) py_dict \<Rightarrow> 'k \<Rightarrow> 'v option" where
  "dict_get d k = map_of d k"

text \<open>\<^verbatim>\<open>inv_dict(d)\<close>: the comprehension \<^verbatim>\<open>{v: k for k, v in d.items()}\<close>.\<close>

definition inv_dict :: "('k, 'v) py_dict \<Rightarrow> ('v, 'k) py_dict" where
  "inv_dict d = fold (\<lambda>(k, v) r. AList.update v k r) d []"

text \<open>
  The expression \<^verbatim>\<open>d_inv[d[k]]\<close>: the forward lookup, then the inverse one; \<open>None\<close> where
  either raises \<^verbatim>\<open>KeyError\<close>.
\<close>

definition inverse_of_forward :: "('k, 'v) py_dict \<Rightarrow> ('v, 'k) py_dict \<Rightarrow> 'k \<Rightarrow> 'k option" where
  "inverse_of_forward d d_inv k =
     (case dict_get d k of None \<Rightarrow> None | Some v \<Rightarrow> dict_get d_inv v)"

text \<open>The keys of the four header dicts of a profile class, in the order of the source.\<close>

definition scheme_identifiers :: "string list" where
  "scheme_identifiers = [''standard'', ''p2wpkh-p2sh'', ''p2wsh-p2sh'', ''p2wpkh'', ''p2wsh'']"

section \<open>The named tuples of burn amounts and burn addresses\<close>

record BurnAmounts =
  IssueAssetBurnAmount :: py_num
  ReissueAssetBurnAmount :: py_num
  IssueSubAssetBurnAmount :: py_num
  IssueUniqueAssetBurnAmount :: py_num
  IssueMsgChannelAssetBurnAmount :: py_num
  IssueQualifierAssetBurnAmount :: py_num
  IssueSubQualifierAssetBurnAmount :: py_num
  IssueRestrictedAssetBurnAmount :: py_num
  AddNullQualifierTagBurnAmount :: py_num

record BurnAddresses =
  IssueAssetBurnAddress :: string
  ReissueAssetBurnAddress :: string
  IssueSubAssetBurnAddress :: string
  IssueUniqueAssetBurnAddress :: string
  IssueMsgChannelAssetBurnAddress :: string
  IssueQualifierAssetBurnAddress :: string
  IssueSubQualifierAssetBurnAddress :: string
  IssueRestrictedAssetBurnAddress :: string
  AddNullQualifierTagBurnAddress :: string
  GlobalBurnAddress :: string

definition BurnAmounts_field_names :: "string list" where
  "BurnAmounts_field_names =
     [''IssueAssetBurnAmount'', ''ReissueAssetBurnAmount'', ''IssueSubAssetBurnAmount'',
      ''IssueUniqueAssetBurnAmount'', ''IssueMsgChannelAssetBurnAmount'',
      ''IssueQualifierAssetBurnAmount'', ''IssueSubQualifierAssetBurnAmount'',
      ''IssueRestrictedAssetBurnAmount'', ''AddNullQualifierTagBurnAmount'']"

definition BurnAddresses_field_names :: "string list" where
  "BurnAddresses_field_names =
     [''IssueAssetBurnAddress'', ''ReissueAssetBurnAddress'', ''IssueSubAssetBurnAddress'',
      ''IssueUniqueAssetBurnAddress'', ''IssueMsgChannelAssetBurnAddress'',
      ''IssueQualifierAssetBurnAddress'', ''IssueSubQualifierAssetBurnAddress'',
      ''IssueRestrictedAssetBurnAddress'', ''AddNullQualifierTagBurnAddress'',
      ''GlobalBurnAddress'']"

text \<open>
  Calling a \<^verbatim>\<open>NamedTuple\<close> class with keyword arguments: a keyword given more than
  once (the call gets multiple values for it), a keyword that is no field, or a field
  with no argument (no field has a default) raises \<^verbatim>\<open>TypeError\<close>; otherwise every
  field gets the argument of its name.
\<close>

definition bind_kwargs :: "string list \<Rightarrow> (string \<times> 'a) list \<Rightarrow> py_error + 'a list" where
  "bind_kwargs names kwargs =
     (if \<not> distinct (map fst kwargs)
      then Inl (TypeError ''got multiple values for keyword argument'')
      else (case filter (\<lambda>k. k \<notin> set names) (map fst kwargs) of
        k # _ \<Rightarrow> Inl (TypeError (''got an unexpected keyword argument '' @ k))
      | [] \<Rightarrow>
          (case filter (\<lambda>f. map_of kwargs f = None) names of
             f # _ \<Rightarrow> Inl (TypeError (''missing required argument '' @ f))
           | [] \<Rightarrow> Inr (map (\<lambda>f. the (map_of kwargs f)) names))))"

definition new_BurnAmounts :: "(string \<times> py_num) list \<Rightarrow> py_error + BurnAmounts" where
  "new_BurnAmounts kwargs =
     (case bind_kwargs BurnAmounts_field_names kwargs of
        Inl e \<Rightarrow> Inl e
      | Inr vs \<Rightarrow> Inr \<lparr>
          IssueAssetBurnAmount = vs ! 0,
          ReissueAssetBurnAmount = vs ! 1,
          IssueSubAssetBurnAmount = vs ! 2,
          IssueUniqueAssetBurnAmount = vs ! 3,
          IssueMsgChannelAssetBurnAmount = vs ! 4,
          IssueQualifierAssetBurnAmount = vs ! 5,
          IssueSubQualifierAssetBurnAmount = vs ! 6,
          IssueRestrictedAssetBurnAmount = vs ! 7,
          AddNullQualifierTagBurnAmount = vs ! 8 \<rparr>)"

definition new_BurnAddresses :: "(string \<times> string) list \<Rightarrow> py_error + BurnAddresses" where
  "new_BurnAddresses kwargs =
     (case bind_kwargs BurnAddresses_field_names kwargs of
        Inl e \<Rightarrow> Inl e
      | Inr vs \<Rightarrow> Inr \<lparr>
          IssueAssetBurnAddress = vs ! 0,
          ReissueAssetBurnAddress = vs ! 1,
          IssueSubAssetBurnAddress = vs ! 2,
          IssueUniqueAssetBurnAddress = vs ! 3,
          IssueMsgChannelAssetBurnAddress = vs ! 4,
          IssueQualifierAssetBurnAddress = vs ! 5,
          IssueSubQualifierAssetBurnAddress = vs ! 6,
          IssueRestrictedAssetBurnAddress = vs ! 7,
          AddNullQualifierTagBurnAddress = vs ! 8,
          GlobalBurnAddress = vs ! 9 \<rparr>)"

text \<open>A named tuple is a tuple: its items, in the order of the fields.\<close>

definition BurnAmounts_tuple :: "BurnAmounts \<Rightarrow> py_num list" where
  "BurnAmounts_tuple t =
     [IssueAssetBurnAmount t, ReissueAssetBurnAmount t, IssueSubAssetBurnAmount t,
      IssueUniqueAssetBurnAmount t, IssueMsgChannelAssetBurnAmount t,
      IssueQualifierAssetBurnAmount t, IssueSubQualifierAssetBurnAmount t,
      IssueRestrictedAssetBurnAmount t, AddNullQualifierTagBurnAmount t]"

definition BurnAddresses_tuple :: "BurnAddresses \<Rightarrow> string list" where
  "BurnAddresses_tuple t =
     [IssueAssetBurnAddress t, ReissueAssetBurnAddress t, IssueSubAssetBurnAddress t,
      IssueUniqueAssetBurnAddress t, IssueMsgChannelAssetBurnAddress t,
      IssueQualifierAssetBurnAddress t, IssueSubQualifierAssetBurnAddress t,
      IssueRestrictedAssetBurnAddress t, AddNullQualifierTagBurnAddress t,
      GlobalBurnAddress t]"

section \<open>Network profiles\<close>

text \<open>
  A value of \<open>net_profile\<close> holds what attribute lookup on a subclass of
  \<^verbatim>\<open>AbstractNet\<close> returns, the attributes inherited from \<^verbatim>\<open>AbstractNet\<close> included
  (\<open>BLOCK_HEIGHT_FIRST_LIGHTNING_CHANNELS\<close>). \<open>LN_REALM_BYTE\<close> and \<open>LN_DNS_SEEDS\<close>
  are assigned in the test network's class only, so they are optional. \<open>CHECKPOINTS\<close>
  and \<open>DGW_CHECKPOINTS\<close> hold whatever the resource parsed to.
\<close>

record net_profile =
  NET_NAME :: string
  TESTNET :: bool
  WIF_PREFIX :: int
  ADDRTYPE_P2PKH :: int
  ADDRTYPE_P2SH :: int
  ADDRTYPE_P2SH_ALT :: int
  MATURE :: int
  SEGWIT_HRP :: string
  BOLT11_HRP :: string
  GENESIS :: string
  DEFAULT_PORTS :: "(string, string) py_dict"
  DEFAULT_SERVERS :: json
  CHECKPOINTS :: json
  DGW_CHECKPOINTS :: json
  DGW_CHECKPOINTS_SPACING :: int
  DGW_CHECKPOINTS_START :: int
  X16Rv2ActivationTS :: int
  KawpowActivationTS :: int
  KawpowActivationHeight :: int
  nDGWActivationBlock :: int
  DEFAULT_MESSAGE_CHANNELS :: "string list"
  ASSET_PREFIX :: "byte list"
  SHORT_NAME :: string
  LONG_NAME :: string
  MULTISIG_ASSETS :: bool
  XPRV_HEADERS :: "(string, int) py_dict"
  XPRV_HEADERS_INV :: "(int, string) py_dict"
  XPUB_HEADERS :: "(string, int) py_dict"
  XPUB_HEADERS_INV :: "(int, string) py_dict"
  BIP44_COIN_TYPE :: int
  BURN_AMOUNTS :: BurnAmounts
  BURN_ADDRESSES :: BurnAddresses
  BLOCK_HEIGHT_FIRST_LIGHTNING_CHANNELS :: int
  LN_REALM_BYTE :: "int option"
  LN_DNS_SEEDS :: "string list option"

subsection \<open>The class methods of \<^verbatim>\<open>AbstractNet\<close>\<close>

definition max_legacy_checkpoint :: "'a net_profile_scheme \<Rightarrow> py_error + int" where
  "max_legacy_checkpoint cls =
     (case py_len (CHECKPOINTS cls) of
        Inl e \<Rightarrow> Inl e
      | Inr n \<Rightarrow> Inr (max 0 (n * 2016 - 1)))"

definition max_checkpoint :: "'a net_profile_scheme \<Rightarrow> py_error + int" where
  "max_checkpoint cls =
     (case py_len (DGW_CHECKPOINTS cls) of
        Inl e \<Rightarrow> Inl e
      | Inr n \<Rightarrow>
          Inr (max 0 (DGW_CHECKPOINTS_START cls + (n * DGW_CHECKPOINTS_SPACING cls) - 1)))"

subsection \<open>The two profile classes\<close>

text \<open>
  A class body runs its assignments in order; the only calls in it that can raise are the
  two named-tuple constructors, so the class statement yields the class or their error.
\<close>

definition AIPGMainnet :: "py_env \<Rightarrow> py_error + net_profile" where
  "AIPGMainnet env =
     (let segwit_hrp = ''rc'';
          spacing = 2016;
          xprv_headers = dict_display
            [(''standard'', 0x0488ade4),
             (''p2wpkh-p2sh'', 0x049d7878),
             (''p2wsh-p2sh'', 0x0295b005),
             (''p2wpkh'', 0x04b2430c),
             (''p2wsh'', 0x02aa7a99)];
          xpub_headers = dict_display
            [(''standard'', 0x0488b21e),
             (''p2wpkh-p2sh'', 0x049d7cb2),
             (''p2wsh-p2sh'', 0x0295b43f),
             (''p2wpkh'', 0x04b24746),
             (''p2wsh'', 0x02aa7ed3)]
      in case new_BurnAmounts
           [(''IssueAssetBurnAmount'', PyInt 50),
            (''ReissueAssetBurnAmount'', PyInt 10),
            (''IssueSubAssetBurnAmount'', PyInt 10),
            (''IssueUniqueAssetBurnAmount'', PyFloat (5 / 10)),
            (''IssueMsgChannelAssetBurnAmount'', PyInt 10),
            (''IssueQualifierAssetBurnAmount'', PyInt 100),
            (''IssueSubQualifierAssetBurnAmount'', PyInt 10),
            (''IssueRestrictedAssetBurnAmount'', PyInt 150),
            (''AddNullQualifierTagBurnAmount'', PyFloat (1 / 100))] of
        Inl e \<Rightarrow> Inl e
      | Inr burn_amounts \<Rightarrow>
     (case new_BurnAddresses
           [(''IssueAssetBurnAddress'', ''AIissueAssetXXXXXXXXXXXXXXXXXhhZGt''),
            (''ReissueAssetBurnAddress'', ''AIReissueAssetXXXXXXXXXXXXXXVEFAWu''),
            (''IssueSubAssetBurnAddress'', ''AIissueSubAssetXXXXXXXXXXXXXWcwhwL''),
            (''IssueUniqueAssetBurnAddress'', ''AIissueUniqueAssetXXXXXXXXXXWEAe58''),
            (''IssueMsgChannelAssetBurnAddress'', ''AIissueMsgChanneLAssetXXXXXXSjHvAY''),
            (''IssueQualifierAssetBurnAddress'', ''AIissueQuaLifierXXXXXXXXXXXXUgEDbC''),
            (''IssueSubQualifierAssetBurnAddress'', ''AIissueSubQuaLifierXXXXXXXXXVTzvv5''),
            (''IssueRestrictedAssetBurnAddress'', ''AIissueRestrictedXXXXXXXXXXXXzJZ1q''),
            (''AddNullQualifierTagBurnAddress'', ''AIaddTagBurnXXXXXXXXXXXXXXXXZQm5ya''),
            (''GlobalBurnAddress'', ''AIBurnXXXXXXXXXXXXXXXXXXXXXXWUo9FV'')] of
        Inl e \<Rightarrow> Inl e
      | Inr burn_addresses \<Rightarrow> Inr \<lparr>
          NET_NAME = ''mainnet'',
          TESTNET = False,
          WIF_PREFIX = 128,
          ADDRTYPE_P2PKH = 23,
          ADDRTYPE_P2SH = 23,
          ADDRTYPE_P2SH_ALT = 23,
          MATURE = 60,
          SEGWIT_HRP = segwit_hrp,
          BOLT11_HRP = segwit_hrp,
          GENESIS = ''000000fe8c99a7aacc5aff074278a8378e625c0d02e4894db8f09bab185f4eb6'',
          DEFAULT_PORTS = dict_display [(''t'', ''50001''), (''s'', ''50002'')],
          DEFAULT_SERVERS = read_json env ''servers.json'' (JDict []),
          CHECKPOINTS = read_json env ''checkpoints.json'' (JList []),
          DGW_CHECKPOINTS = read_json env ''checkpoints_dgw.json'' (JList []),
          DGW_CHECKPOINTS_SPACING = spacing,
          DGW_CHECKPOINTS_START = 168 * spacing,
          X16Rv2ActivationTS = 1688764800,
          KawpowActivationTS = 1688764800,
          KawpowActivationHeight = 1,
          nDGWActivationBlock = 1,
          DEFAULT_MESSAGE_CHANNELS = [''ELECTRUM_AIPG~notification''],
          ASSET_PREFIX = [0x61, 0x69, 0x70, 0x67],
          SHORT_NAME = ''AIPG'',
          LONG_NAME = ''AIPG'',
          MULTISIG_ASSETS = False,
          XPRV_HEADERS = xprv_headers,
          XPRV_HEADERS_INV = inv_dict xprv_headers,
          XPUB_HEADERS = xpub_headers,
          XPUB_HEADERS_INV = inv_dict xpub_headers,
          BIP44_COIN_TYPE = 2686,
          BURN_AMOUNTS = burn_amounts,
          BURN_ADDRESSES = burn_addresses,
          BLOCK_HEIGHT_FIRST_LIGHTNING_CHANNELS = 0,
          LN_REALM_BYTE = None,
          LN_DNS_SEEDS = None \<rparr>))"

definition AIPGTestnet :: "py_env \<Rightarrow> py_error + net_profile" where
  "AIPGTestnet env =
     (let segwit_hrp = ''tc'';
          xprv_headers = dict_display
            [(''standard'', 0x04358394),
             (''p2wpkh-p2sh'', 0x044a4e28),
             (''p2wsh-p2sh'', 0x024285b5),
             (''p2wpkh'', 0x045f18bc),
             (''p2wsh'', 0x02575048)];
          xpub_headers = dict_display
            [(''standard'', 0x043587cf),
             (''p2wpkh-p2sh'', 0x044a5262),
             (''p2wsh-p2sh'', 0x024289ef),
             (''p2wpkh'', 0x045f1cf6),
             (''p2wsh'', 0x02575483)]
      in case new_BurnAmounts
           [(''IssueAssetBurnAmount'', PyInt 50),
            (''ReissueAssetBurnAmount'', PyInt 10),
            (''IssueSubAssetBurnAmount'', PyInt 10),
            (''IssueUniqueAssetBurnAmount'', PyFloat (5 / 10)),
            (''IssueMsgChannelAssetBurnAmount'', PyInt 10),
            (''IssueQualifierAssetBurnAmount'', PyInt 100),
            (''IssueSubQualifierAssetBurnAmount'', PyInt 10),
            (''IssueRestrictedAssetBurnAmount'', PyInt 150),
            (''AddNullQualifierTagBurnAmount'', PyFloat (1 / 100))] of
        Inl e \<Rightarrow> Inl e
      | Inr burn_amounts \<Rightarrow>
     (case new_BurnAddresses
           [(''IssueAssetBurnAddress'', ''n1issueAssetXXXXXXXXXXXXXXXXWdnemQ''),
            (''ReissueAssetBurnAddress'', ''n1ReissueAssetXXXXXXXXXXXXXXWG9NLd''),
            (''IssueSubAssetBurnAddress'', ''n1issueSubAssetXXXXXXXXXXXXXbNiH6v''),
            (''IssueUniqueAssetBurnAddress'', ''n1issueUniqueAssetXXXXXXXXXXS4695i''),
            (''IssueMsgChannelAssetBurnAddress'', ''n1issueMsgChanneLAssetXXXXXXT2PBdD''),
            (''IssueQualifierAssetBurnAddress'', ''n1issueQuaLifierXXXXXXXXXXXXUysLTj''),
            (''IssueSubQualifierAssetBurnAddress'', ''n1issueSubQuaLifierXXXXXXXXXYffPLh''),
            (''IssueRestrictedAssetBurnAddress'', ''n1issueRestrictedXXXXXXXXXXXXZVT9V''),
            (''AddNullQualifierTagBurnAddress'', ''n1addTagBurnXXXXXXXXXXXXXXXXX5oLMH''),
            (''GlobalBurnAddress'', ''AcYHNBj8C6nCFSpu1ANsJxturWp31W32cd'')] of
        Inl e \<Rightarrow> Inl e
      | Inr burn_addresses \<Rightarrow> Inr \<lparr>
          NET_NAME = ''testnet'',
          TESTNET = True,
          WIF_PREFIX = 239,
          ADDRTYPE_P2PKH = 23,
          ADDRTYPE_P2SH = 23,
          ADDRTYPE_P2SH_ALT = 23,
          MATURE = 60,
          SEGWIT_HRP = segwit_hrp,
          BOLT11_HRP = segwit_hrp,
          GENESIS = ''000000f798386703ae778eeaf8a2f426dc2715eb8989b4226cddc1681b567760'',
          DEFAULT_PORTS = dict_display [(''t'', ''51001''), (''s'', ''51002'')],
          DEFAULT_SERVERS = read_json env ''servers_testnet.json'' (JDict []),
          CHECKPOINTS = JList [],
          DGW_CHECKPOINTS = read_json env ''checkpoints_dgw_testnet.json'' (JList []),
          DGW_CHECKPOINTS_SPACING = 2016,
          DGW_CHECKPOINTS_START = 0,
          X16Rv2ActivationTS = 1688764800,
          KawpowActivationTS = 1688764800,
          KawpowActivationHeight = 1,
          nDGWActivationBlock = 1,
          DEFAULT_MESSAGE_CHANNELS = [],
          ASSET_PREFIX = [0x61, 0x69, 0x70, 0x67],
          SHORT_NAME = ''tAIPG'',
          LONG_NAME = ''AIPG'',
          MULTISIG_ASSETS = False,
          XPRV_HEADERS = xprv_headers,
          XPRV_HEADERS_INV = inv_dict xprv_headers,
          XPUB_HEADERS = xpub_headers,
          XPUB_HEADERS_INV = inv_dict xpub_headers,
          BIP44_COIN_TYPE = 1,
          BURN_AMOUNTS = burn_amounts,
          BURN_ADDRESSES = burn_addresses,
          BLOCK_HEIGHT_FIRST_LIGHTNING_CHANNELS = 0,
          LN_REALM_BYTE = Some 0,
          LN_DNS_SEEDS = Some [] \<rparr>))"

section \<open>Hexadecimal strings and the genesis hash\<close>

text \<open>The value of a hexadecimal digit, in either case; \<open>None\<close> for any other character.\<close>

definition hex_digit_value :: "char \<Rightarrow> nat option" where
  "hex_digit_value c =
     (let n = (of_char c :: nat)
      in if 48 \<le> n \<and> n \<le> 57 then Some (n - 48)
         else if 97 \<le> n \<and> n \<le> 102 then Some (n - 87)
         else if 65 \<le> n \<and> n \<le> 70 then Some (n - 55)
         else None)"

text \<open>ASCII white space: space, tab, line feed, vertical tab, form feed, carriage return.\<close>

definition py_isspace :: "char \<Rightarrow> bool" where
  "py_isspace c = (let n = (of_char c :: nat) in n = 32 \<or> (9 \<le> n \<and> n \<le> 13))"

text \<open>
  \<^verbatim>\<open>bytes.fromhex(s)\<close>: white space is skipped where a byte would start, then two
  hexadecimal digits give one byte; anything else raises \<^verbatim>\<open>ValueError\<close>.
\<close>

fun bytes_fromhex :: "string \<Rightarrow> py_error + byte list" where
  "bytes_fromhex [] = Inr []"
| "bytes_fromhex [c] =
     (if py_isspace c then Inr []
      else Inl (ValueError ''non-hexadecimal number found in fromhex() arg''))"
| "bytes_fromhex (c # d # cs) =
     (if py_isspace c then bytes_fromhex (d # cs)
      else (case (hex_digit_value c, hex_digit_value d) of
              (Some hi, Some lo) \<Rightarrow>
                (case bytes_fromhex cs of
                   Inl e \<Rightarrow> Inl e
                 | Inr bs \<Rightarrow> Inr (of_nat (16 * hi + lo) # bs))
            | _ \<Rightarrow> Inl (ValueError ''non-hexadecimal number found in fromhex() arg'')))"

text \<open>\<^verbatim>\<open>b.hex()\<close>: two lower-case digits per byte.\<close>

definition hex_digit :: "nat \<Rightarrow> char" where
  "hex_digit n = ''0123456789abcdef'' ! n"

definition bytes_hex :: "byte list \<Rightarrow> string" where
  "bytes_hex bs = concat (map (\<lambda>b. [hex_digit (unat b div 16), hex_digit (unat b mod 16)]) bs)"

text \<open>
  The spec's "valid hex of even length": an even number of characters, each a hexadecimal
  digit.
\<close>

definition valid_hex :: "string \<Rightarrow> bool" where
  "valid_hex s = (even (length s) \<and> list_all (\<lambda>c. hex_digit_value c \<noteq> None) s)"

text \<open>
  Modelled from the spec: \<^verbatim>\<open>bitcoin.rev_hex\<close>. \<^verbatim>\<open>rev_genesis_bytes\<close> imports it from the
  sibling module \<^verbatim>\<open>bitcoin\<close>, which is not among the sources. The spec says that the
  genesis hex string is decoded and its byte order reversed, and that the decoding fails
  with a decode error when the string is not valid hex of even length; since the method
  passes the helper's result to \<^verbatim>\<open>bytes.fromhex\<close>, the helper returns the reversed bytes
  as a hex string again.
\<close>

definition rev_hex :: "string \<Rightarrow> py_error + string" where
  "rev_hex s =
     (if valid_hex s
      then (case bytes_fromhex s of
              Inl e \<Rightarrow> Inl e
            | Inr bs \<Rightarrow> Inr (bytes_hex (rev bs)))
      else Inl (ValueError ''not a hexadecimal string of even length''))"

text \<open>The class method \<^verbatim>\<open>rev_genesis_bytes\<close>.\<close>

definition rev_genesis_bytes :: "'a net_profile_scheme \<Rightarrow> py_error + byte list" where
  "rev_genesis_bytes cls =
     (case rev_hex (GENESIS cls) of
        Inl e \<Rightarrow> Inl e
      | Inr h \<Rightarrow> bytes_fromhex h)"

section \<open>The module's namespace and the active network\<close>

text \<open>
  The objects a global name of the module can be bound to. Only the profile classes are
  read through; functions, modules and the other classes are opaque.
\<close>

datatype py_object =
    ProfileClass net_profile
  | JsonValue json
  | StrValue string
  | OtherObject string

type_synonym namespace = "string \<rightharpoonup> py_object"

text \<open>The names of Python's \<^verbatim>\<open>builtins\<close> module, where a global lookup falls back to.\<close>

definition builtin_names :: "string list" where
  "builtin_names =
     [''abs'', ''aiter'', ''all'', ''anext'', ''any'', ''ascii'', ''bin'', ''bool'',
      ''breakpoint'', ''bytearray'', ''bytes'', ''callable'', ''chr'', ''classmethod'',
      ''compile'', ''complex'', ''copyright'', ''credits'', ''delattr'', ''dict'', ''dir'',
      ''divmod'', ''enumerate'', ''eval'', ''exec'', ''exit'', ''filter'', ''float'',
      ''format'', ''frozenset'', ''getattr'', ''globals'', ''hasattr'', ''hash'', ''help'',
      ''hex'', ''id'', ''input'', ''int'', ''isinstance'', ''issubclass'', ''iter'', ''len'',
      ''license'', ''list'', ''locals'', ''map'', ''max'', ''memoryview'', ''min'', ''next'',
      ''object'', ''oct'', ''open'', ''ord'', ''pow'', ''print'', ''property'', ''quit'',
      ''range'', ''repr'', ''reversed'', ''round'', ''set'', ''setattr'', ''slice'',
      ''sorted'', ''staticmethod'', ''str'', ''sum'', ''super'', ''tuple'', ''type'',
      ''vars'', ''zip'', ''__import__'', ''__build_class__'', ''__debug__'',
      ''True'', ''False'', ''None'', ''Ellipsis'', ''NotImplemented'',
      ''ArithmeticError'', ''AssertionError'', ''AttributeError'', ''BaseException'',
      ''BaseExceptionGroup'', ''BlockingIOError'', ''BrokenPipeError'', ''BufferError'',
      ''BytesWarning'', ''ChildProcessError'', ''ConnectionAbortedError'',
      ''ConnectionError'', ''ConnectionRefusedError'', ''ConnectionResetError'',
      ''DeprecationWarning'', ''EOFError'', ''EncodingWarning'', ''EnvironmentError'',
      ''Exception'', ''ExceptionGroup'', ''FileExistsError'', ''FileNotFoundError'',
      ''FloatingPointError'', ''FutureWarning'', ''GeneratorExit'', ''IOError'',
      ''ImportError'', ''ImportWarning'', ''IndentationError'', ''IndexError'',
      ''InterruptedError'', ''IsADirectoryError'', ''KeyError'', ''KeyboardInterrupt'',
      ''LookupError'', ''MemoryError'', ''ModuleNotFoundError'', ''NameError'',
      ''NotADirectoryError'', ''NotImplementedError'', ''OSError'', ''OverflowError'',
      ''PendingDeprecationWarning'', ''PermissionError'', ''ProcessLookupError'',
      ''PythonFinalizationError'', ''RecursionError'', ''ReferenceError'',
      ''ResourceWarning'', ''RuntimeError'', ''RuntimeWarning'', ''StopAsyncIteration'',
      ''StopIteration'', ''SyntaxError'', ''SyntaxWarning'', ''SystemError'',
      ''SystemExit'', ''TabError'', ''TimeoutError'', ''TypeError'',
      ''UnboundLocalError'', ''UnicodeDecodeError'', ''UnicodeEncodeError'',
      ''UnicodeError'', ''UnicodeTranslateError'', ''UnicodeWarning'', ''UserWarning'',
      ''ValueError'', ''Warning'', ''ZeroDivisionError'']"

text \<open>
  Reading a global name: the module's namespace first, then the builtins; a name found
  in neither raises \<^verbatim>\<open>NameError\<close>.
\<close>

definition lookup_name :: "namespace \<Rightarrow> string \<Rightarrow> py_error + py_object" where
  "lookup_name g x =
     (case g x of
        Some v \<Rightarrow> Inr v
      | None \<Rightarrow>
          if x \<in> set builtin_names then Inr (OtherObject (''builtins.'' @ x))
          else Inl (NameError x))"

text \<open>
  The names the module's statements bind before \<^verbatim>\<open>net\<close> is assigned, in the order of the
  file: the imports, the two helper functions, the constants, the named tuples, the
  classes, \<^verbatim>\<open>all_subclasses\<close> and \<^verbatim>\<open>NETS_LIST\<close>; and the names every module has.
\<close>

definition module_names :: "py_env \<Rightarrow> net_profile \<Rightarrow> net_profile \<Rightarrow> namespace" where
  "module_names env mainnet testnet =
     [''__name__'' \<mapsto> StrValue ''electrum.constants'',
      ''__doc__'' \<mapsto> JsonValue JNull,
      ''__package__'' \<mapsto> StrValue ''electrum'',
      ''__loader__'' \<mapsto> OtherObject ''loader'',
      ''__spec__'' \<mapsto> OtherObject ''module spec'',
      ''__file__'' \<mapsto> StrValue (path_join (module_dir env) ''constants.py''),
      ''__cached__'' \<mapsto> OtherObject ''path of the byte code'',
      ''__builtins__'' \<mapsto> OtherObject ''module'',
      ''os'' \<mapsto> OtherObject ''module'',
      ''json'' \<mapsto> OtherObject ''module'',
      ''NamedTuple'' \<mapsto> OtherObject ''class'',
      ''Union'' \<mapsto> OtherObject ''special form'',
      ''inv_dict'' \<mapsto> OtherObject ''function'',
      ''read_json'' \<mapsto> OtherObject ''function'',
      ''GIT_REPO_URL'' \<mapsto> StrValue ''https://github.com/AIPowerGrid/electrum-aipg'',
      ''GIT_REPO_ISSUES_URL'' \<mapsto>
        StrValue ''https://github.com/AIPowerGrid/electrum-aipg/issues'',
      ''BIP39_WALLET_FORMATS'' \<mapsto>
        JsonValue (read_json env ''bip39_wallet_formats.json'' (JList [])),
      ''BurnAmounts'' \<mapsto> OtherObject ''class'',
      ''BurnAddresses'' \<mapsto> OtherObject ''class'',
      ''AbstractNet'' \<mapsto> OtherObject ''class'',
      ''AIPGMainnet'' \<mapsto> ProfileClass mainnet,
      ''AIPGTestnet'' \<mapsto> ProfileClass testnet,
      ''all_subclasses'' \<mapsto> OtherObject ''function'',
      ''NETS_LIST'' \<mapsto> OtherObject ''tuple'']"

text \<open>
  Executing the module (what \<^verbatim>\<open>import electrum.constants\<close> does): the class statements,
  then \<^verbatim>\<open>net = RavencoinMainnet\<close>, whose right-hand side is read before \<^verbatim>\<open>net\<close> is bound,
  then the two function definitions.
\<close>

definition exec_module :: "py_env \<Rightarrow> py_error + namespace" where
  "exec_module env =
     (case AIPGMainnet env of
        Inl e \<Rightarrow> Inl e
      | Inr mainnet \<Rightarrow>
     (case AIPGTestnet env of
        Inl e \<Rightarrow> Inl e
      | Inr testnet \<Rightarrow>
     (let g = module_names env mainnet testnet
      in case lookup_name g ''RavencoinMainnet'' of
           Inl e \<Rightarrow> Inl e
         | Inr v \<Rightarrow>
             Inr (g(''net'' \<mapsto> v,
                    ''set_mainnet'' \<mapsto> OtherObject ''function'',
                    ''set_testnet'' \<mapsto> OtherObject ''function'')))))"

text \<open>
  \<^verbatim>\<open>set_mainnet()\<close> and \<^verbatim>\<open>set_testnet()\<close>: \<^verbatim>\<open>global net\<close>, then an assignment whose
  right-hand side is a global name. They act on the namespace \<open>g\<close> of the module.
\<close>

definition set_mainnet :: "namespace \<Rightarrow> py_error + namespace" where
  "set_mainnet g =
     (case lookup_name g ''RavencoinMainnet'' of
        Inl e \<Rightarrow> Inl e
      | Inr v \<Rightarrow> Inr (g(''net'' \<mapsto> v)))"

definition set_testnet :: "namespace \<Rightarrow> py_error + namespace" where
  "set_testnet g =
     (case lookup_name g ''RavencoinTestnet'' of
        Inl e \<Rightarrow> Inl e
      | Inr v \<Rightarrow> Inr (g(''net'' \<mapsto> v)))"

text \<open>
  The namespace with every name the module's statements bind: the function definitions
  included, and \<^verbatim>\<open>net\<close> bound to \<open>n\<close> (unbound when \<open>n\<close> is \<open>None\<close>).
\<close>

definition full_namespace ::
  "py_env \<Rightarrow> net_profile \<Rightarrow> net_profile \<Rightarrow> py_object option \<Rightarrow> namespace" where
  "full_namespace env mainnet testnet n =
     (module_names env mainnet testnet)
       (''net'' := n,
        ''set_mainnet'' \<mapsto> OtherObject ''function'',
        ''set_testnet'' \<mapsto> OtherObject ''function'')"

text \<open>
  A consumer's read \<^verbatim>\<open>constants.net.ATTR\<close>: the module attribute \<^verbatim>\<open>net\<close>, then an
  attribute of the class it is bound to.
\<close>

definition read_net :: "(net_profile \<Rightarrow> 'a) \<Rightarrow> namespace \<Rightarrow> py_error + 'a" where
  "read_net attr g =
     (case g ''net'' of
        None \<Rightarrow> Inl (AttributeError ''net'')
      | Some (ProfileClass cls) \<Rightarrow> Inr (attr cls)
      | Some _ \<Rightarrow> Inl (AttributeError ''attribute of an object that is no profile''))"

section \<open>Example environments\<close>

text \<open>
  An installation whose legacy resource holds 168 checkpoints and whose DGW resource holds
  5000; the two texts stand for the files' contents.
\<close>

definition example_env :: py_env where
  "example_env = \<lparr>
     module_dir = ''/opt/electrum'',
     read_file = (\<lambda>p.
       if p = ''/opt/electrum/checkpoints.json'' then Some ''legacy''
       else if p = ''/opt/electrum/checkpoints_dgw.json'' then Some ''dgw''
       else None),
     json_loads = (\<lambda>t.
       if t = ''legacy''
       then Some (JList (replicate 168 (JList [JStr ''00'', JNum (PyInt 0)])))
       else if t = ''dgw''
       then Some (JList (replicate 5000 (JList [JStr ''00'', JNum (PyInt 0)])))
       else None) \<rparr>"


text \<open>Keyword arguments of a complete call of each named tuple.\<close>

definition example_amount_kwargs :: "(string \<times> py_num) list" where
  "example_amount_kwargs =
     [(''IssueAssetBurnAmount'', PyInt 50),
      (''ReissueAssetBurnAmount'', PyInt 10),
      (''IssueSubAssetBurnAmount'', PyInt 10),
      (''IssueUniqueAssetBurnAmount'', PyFloat (5 / 10)),
      (''IssueMsgChannelAssetBurnAmount'', PyInt 10),
      (''IssueQualifierAssetBurnAmount'', PyInt 100),
      (''IssueSubQualifierAssetBurnAmount'', PyInt 10),
      (''IssueRestrictedAssetBurnAmount'', PyInt 150),
      (''AddNullQualifierTagBurnAmount'', PyFloat (1 / 100))]"

definition example_address_kwargs :: "(string \<times> string) list" where
  "example_address_kwargs =
     [(''IssueAssetBurnAddress'', ''a1''),
      (''ReissueAssetBurnAddress'', ''a2''),
      (''IssueSubAssetBurnAddress'', ''a3''),
      (''IssueUniqueAssetBurnAddress'', ''a4''),
      (''IssueMsgChannelAssetBurnAddress'', ''a5''),
      (''IssueQualifierAssetBurnAddress'', ''a6''),
      (''IssueSubQualifierAssetBurnAddress'', ''a7''),
      (''IssueRestrictedAssetBurnAddress'', ''a8''),
      (''AddNullQualifierTagBurnAddress'', ''a9''),
      (''GlobalBurnAddress'', ''a10'')]"

section \<open>Evaluating the class statements\<close>

lemmas class_defs =
  AIPGMainnet_def AIPGTestnet_def new_BurnAmounts_def new_BurnAddresses_def
  bind_kwargs_def BurnAmounts_field_names_def BurnAddresses_field_names_def Let_def

lemma AIPGMainnet_succeeds: "\<exists>M. AIPGMainnet env = Inr M"
  by (simp add: class_defs)

lemma AIPGTestnet_succeeds: "\<exists>T. AIPGTestnet env = Inr T"
  by (simp add: class_defs)

section \<open>Checkpoint heights\<close>

text \<open>
  C3. For every profile \<open>P\<close> whose DGW checkpoint table has a length \<open>n\<close>,
  \<open>max_checkpoint\<close> returns \<open>max(0, start + n * spacing - 1)\<close>. With the start
  \<open>168 * 2016 = 338688\<close>, the spacing 2016 and 5000 DGW checkpoints it returns 10418687;
  the main network's class has this start and spacing, so it returns 10418687 whenever its
  DGW resource holds a list of 5000 checkpoints.
\<close>

theorem max_checkpoint_formula:
  "(py_len (DGW_CHECKPOINTS P) = Inr n \<longrightarrow>
      max_checkpoint P =
        Inr (max 0 (DGW_CHECKPOINTS_START P + n * DGW_CHECKPOINTS_SPACING P - 1)))
   \<and> (py_len (DGW_CHECKPOINTS P) = Inr 5000 \<and> DGW_CHECKPOINTS_START P = 168 * 2016
        \<and> DGW_CHECKPOINTS_SPACING P = 2016 \<longrightarrow>
      DGW_CHECKPOINTS_START P = 338688 \<and> max_checkpoint P = Inr 10418687)
   \<and> (read_json env ''checkpoints_dgw.json'' (JList []) = JList cps \<and> length cps = 5000 \<longrightarrow>
      (\<exists>M. AIPGMainnet env = Inr M \<and> DGW_CHECKPOINTS_START M = 338688
           \<and> DGW_CHECKPOINTS_SPACING M = 2016 \<and> max_checkpoint M = Inr 10418687))"
proof (intro conjI impI)
  assume "py_len (DGW_CHECKPOINTS P) = Inr n"
  then show "max_checkpoint P =
      Inr (max 0 (DGW_CHECKPOINTS_START P + n * DGW_CHECKPOINTS_SPACING P - 1))"
    by (simp add: max_checkpoint_def)
next
  assume "py_len (DGW_CHECKPOINTS P) = Inr 5000 \<and> DGW_CHECKPOINTS_START P = 168 * 2016
        \<and> DGW_CHECKPOINTS_SPACING P = 2016"
  then show "DGW_CHECKPOINTS_START P = 338688" and "max_checkpoint P = Inr 10418687"
    by (simp_all add: max_checkpoint_def)
next
  assume "read_json env ''checkpoints_dgw.json'' (JList []) = JList cps \<and> length cps = 5000"
  then show "\<exists>M. AIPGMainnet env = Inr M \<and> DGW_CHECKPOINTS_START M = 338688
           \<and> DGW_CHECKPOINTS_SPACING M = 2016 \<and> max_checkpoint M = Inr 10418687"
    by (simp add: class_defs max_checkpoint_def)
qed

theorem max_checkpoint_formula_witness:
  "read_json example_env ''checkpoints_dgw.json'' (JList [])
      = JList (replicate 5000 (JList [JStr ''00'', JNum (PyInt 0)]))
   \<and> length (replicate 5000 (JList [JStr ''00'', JNum (PyInt 0)])) = 5000
   \<and> (\<exists>M. AIPGMainnet example_env = Inr M
      \<and> py_len (DGW_CHECKPOINTS M) = Inr 5000
      \<and> DGW_CHECKPOINTS_START M = 168 * 2016
      \<and> DGW_CHECKPOINTS_SPACING M = 2016
      \<and> max_checkpoint M =
          Inr (max 0 (DGW_CHECKPOINTS_START M + 5000 * DGW_CHECKPOINTS_SPACING M - 1))
      \<and> max_checkpoint M = Inr 10418687)"
proof -
  have res: "read_json example_env ''checkpoints_dgw.json'' (JList [])
      = JList (replicate 5000 (JList [JStr ''00'', JNum (PyInt 0)]))
   \<and> length (replicate 5000 (JList [JStr ''00'', JNum (PyInt 0)])) = 5000"
    by (simp add: example_env_def read_json_def path_join_def)
  note formula = max_checkpoint_formula
    [where env = example_env and n = 5000
      and cps = "replicate 5000 (JList [JStr ''00'', JNum (PyInt 0)])"]
  from formula res obtain M where M: "AIPGMainnet example_env = Inr M"
    and start: "DGW_CHECKPOINTS_START M = 338688"
    and spacing: "DGW_CHECKPOINTS_SPACING M = 2016"
    and top: "max_checkpoint M = Inr 10418687"
    by blast
  from M res have len: "py_len (DGW_CHECKPOINTS M) = Inr 5000"
    by (auto simp add: class_defs)
  from formula [where P = M] len start spacing top M
  have "\<exists>M. AIPGMainnet example_env = Inr M
      \<and> py_len (DGW_CHECKPOINTS M) = Inr 5000
      \<and> DGW_CHECKPOINTS_START M = 168 * 2016
      \<and> DGW_CHECKPOINTS_SPACING M = 2016
      \<and> max_checkpoint M =
          Inr (max 0 (DGW_CHECKPOINTS_START M + 5000 * DGW_CHECKPOINTS_SPACING M - 1))
      \<and> max_checkpoint M = Inr 10418687"
    by auto
  with res show ?thesis
    by blast
qed

text \<open>
  C4. For every profile \<open>P\<close> whose legacy checkpoint table has a length \<open>n\<close>,
  \<open>max_legacy_checkpoint\<close> returns \<open>max(0, n * 2016 - 1)\<close>; it returns 0 when the
  table is the empty list, as it is in the test network's class.
\<close>

theorem max_legacy_checkpoint_formula:
  "(py_len (CHECKPOINTS P) = Inr n \<longrightarrow>
      max_legacy_checkpoint P = Inr (max 0 (n * 2016 - 1)))
   \<and> (CHECKPOINTS P = JList [] \<longrightarrow> max_legacy_checkpoint P = Inr 0)
   \<and> (\<exists>T. AIPGTestnet env = Inr T \<and> CHECKPOINTS T = JList []
          \<and> max_legacy_checkpoint T = Inr 0)"
proof (intro conjI impI)
  assume "py_len (CHECKPOINTS P) = Inr n"
  then show "max_legacy_checkpoint P = Inr (max 0 (n * 2016 - 1))"
    by (simp add: max_legacy_checkpoint_def)
next
  assume "CHECKPOINTS P = JList []"
  then show "max_legacy_checkpoint P = Inr 0"
    by (simp add: max_legacy_checkpoint_def)
next
  show "\<exists>T. AIPGTestnet env = Inr T \<and> CHECKPOINTS T = JList []
          \<and> max_legacy_checkpoint T = Inr 0"
    by (simp add: class_defs max_legacy_checkpoint_def)
qed

theorem max_legacy_checkpoint_formula_witness:
  "(\<exists>M. AIPGMainnet example_env = Inr M
      \<and> py_len (CHECKPOINTS M) = Inr 168
      \<and> max_legacy_checkpoint M = Inr 338687)
   \<and> (\<exists>T. AIPGTestnet example_env = Inr T
      \<and> CHECKPOINTS T = JList []
      \<and> max_legacy_checkpoint T = Inr 0)"
proof -
  obtain M where M: "AIPGMainnet example_env = Inr M"
    using AIPGMainnet_succeeds by blast
  from M have len: "py_len (CHECKPOINTS M) = Inr 168"
    by (auto simp add: class_defs example_env_def read_json_def path_join_def)
  from max_legacy_checkpoint_formula [of M 168 example_env] len
  have top: "max_legacy_checkpoint M = Inr 338687"
    by simp
  obtain T where T: "AIPGTestnet example_env = Inr T"
    using AIPGTestnet_succeeds by blast
  from T have empty: "CHECKPOINTS T = JList []"
    by (auto simp add: class_defs)
  from max_legacy_checkpoint_formula [of T 0 example_env] empty
  have zero: "max_legacy_checkpoint T = Inr 0"
    by simp
  from M len top T empty zero show ?thesis
    by blast
qed

section \<open>Loading the bundled resources\<close>





section \<open>The extended-key version registry\<close>

lemma map_of_fold_update:
  "map_of (fold (\<lambda>(k, v) r. AList.update v k r) d acc)
     = map_of (map (\<lambda>(k, v). (v, k)) (rev d) @ acc)"
proof (induction d arbitrary: acc)
  case Nil
  show ?case by simp
next
  case (Cons p d)
  obtain k v where p: "p = (k, v)" by (cases p)
  show ?case
    by (simp add: p Cons.IH update_conv' map_add_def fun_eq_iff split: option.splits)
qed

lemma distinct_fold_update:
  "distinct (map fst acc) \<Longrightarrow>
     distinct (map fst (fold (\<lambda>(k, v) r. AList.update v k r) d acc))"
  by (induction d arbitrary: acc) (auto simp add: distinct_update)

lemma keys_fold_update:
  "fst ` set (fold (\<lambda>(k, v) r. AList.update v k r) d acc) = snd ` set d \<union> fst ` set acc"
proof (induction d arbitrary: acc)
  case Nil
  show ?case by simp
next
  case (Cons p d)
  obtain k v where p: "p = (k, v)" by (cases p)
  show ?case
    by (simp add: p Cons.IH dom_update Un_ac)
qed

lemma inv_dict_inverse:
  assumes "distinct (map snd d)" and "map_of d k = Some v"
  shows "map_of (inv_dict d) v = Some k"
proof -
  have "(k, v) \<in> set d"
    using assms(2) by (rule map_of_SomeD)
  then have mem: "(v, k) \<in> set (map (\<lambda>(k, v). (v, k)) (rev d))"
    by force
  have "map fst (map (\<lambda>(k, v). (v, k)) (rev d)) = rev (map snd d)"
    by (simp add: rev_map case_prod_beta)
  with assms(1) have "distinct (map fst (map (\<lambda>(k, v). (v, k)) (rev d)))"
    by simp
  from map_of_is_SomeI [OF this mem] show ?thesis
    by (simp add: inv_dict_def map_of_fold_update)
qed

lemma AIPGMainnet_registry:
  "\<exists>M. AIPGMainnet env = Inr M
     \<and> XPRV_HEADERS M = [(''standard'', 0x0488ade4), (''p2wpkh-p2sh'', 0x049d7878),
          (''p2wsh-p2sh'', 0x0295b005), (''p2wpkh'', 0x04b2430c), (''p2wsh'', 0x02aa7a99)]
     \<and> XPRV_HEADERS_INV M = inv_dict (XPRV_HEADERS M)
     \<and> XPUB_HEADERS M = [(''standard'', 0x0488b21e), (''p2wpkh-p2sh'', 0x049d7cb2),
          (''p2wsh-p2sh'', 0x0295b43f), (''p2wpkh'', 0x04b24746), (''p2wsh'', 0x02aa7ed3)]
     \<and> XPUB_HEADERS_INV M = inv_dict (XPUB_HEADERS M)"
  by (simp add: class_defs dict_display_def)

lemma AIPGTestnet_registry:
  "\<exists>T. AIPGTestnet env = Inr T
     \<and> XPRV_HEADERS T = [(''standard'', 0x04358394), (''p2wpkh-p2sh'', 0x044a4e28),
          (''p2wsh-p2sh'', 0x024285b5), (''p2wpkh'', 0x045f18bc), (''p2wsh'', 0x02575048)]
     \<and> XPRV_HEADERS_INV T = inv_dict (XPRV_HEADERS T)
     \<and> XPUB_HEADERS T = [(''standard'', 0x043587cf), (''p2wpkh-p2sh'', 0x044a5262),
          (''p2wsh-p2sh'', 0x024289ef), (''p2wpkh'', 0x045f1cf6), (''p2wsh'', 0x02575483)]
     \<and> XPUB_HEADERS_INV T = inv_dict (XPUB_HEADERS T)"
  by (simp add: class_defs dict_display_def)

text \<open>
  C5, as the code has it. \<open>inv_dict\<close> raises nothing: it returns a dict for every
  forward map. Its keys are the version integers of the forward map, each once; a version
  integer that several scheme identifiers share is mapped to the one stored last in the
  forward map, so the inverse map has as many items as there are different version
  integers.
\<close>

theorem inv_dict_last_wins:
  "distinct (map fst (inv_dict d))
   \<and> set (map fst (inv_dict d)) = set (map snd d)
   \<and> map_of (inv_dict d) = map_of (map (\<lambda>(k, v). (v, k)) (rev d))
   \<and> dict_get (inv_dict (d @ [(k, v)])) v = Some k
   \<and> length (inv_dict d) = card (set (map snd d))"
proof -
  have d: "distinct (map fst (inv_dict d))"
    by (simp add: inv_dict_def distinct_fold_update)
  have s: "set (map fst (inv_dict d)) = set (map snd d)"
    by (simp add: inv_dict_def keys_fold_update)
  have m: "map_of (inv_dict d) = map_of (map (\<lambda>(k, v). (v, k)) (rev d))" for d
    by (simp add: inv_dict_def map_of_fold_update)
  have l: "length (inv_dict d) = card (set (map snd d))"
    using d s by (metis distinct_card length_map)
  show ?thesis
    by (simp add: d s m l dict_get_def del: set_map)
qed

text \<open>
  C5, as the claim states it, fails: with the private-key map of the main network changed
  so that \<open>p2wpkh\<close> has the version integer of \<open>standard\<close>, the inverse map is built
  without an error, has four items and maps the shared integer to \<open>p2wpkh\<close>.
\<close>

theorem inv_dict_duplicate_counterexample:
  "inv_dict (dict_display
      [(''standard'', 0x0488ade4 :: int), (''p2wpkh-p2sh'', 0x049d7878),
       (''p2wsh-p2sh'', 0x0295b005), (''p2wpkh'', 0x0488ade4), (''p2wsh'', 0x02aa7a99)])
   = [(0x0488ade4, ''p2wpkh''), (0x049d7878, ''p2wpkh-p2sh''),
      (0x0295b005, ''p2wsh-p2sh''), (0x02aa7a99, ''p2wsh'')]"
  by (simp add: inv_dict_def dict_display_def)

text \<open>
  C6. In both profile classes the private-key and the public-key version maps have the
  five scheme identifiers as keys and five different version integers as values, each
  inverse map is \<open>inv_dict\<close> of its forward map, and looking a scheme identifier up
  forward and then inversely gives it back. In general, on a forward map with different
  values, \<open>inv_dict\<close> followed after the forward lookup is the identity.
\<close>

theorem version_maps_injective:
  "(\<exists>M T. AIPGMainnet env = Inr M \<and> AIPGTestnet env = Inr T
      \<and> map fst (XPRV_HEADERS M) = scheme_identifiers
      \<and> distinct (map snd (XPRV_HEADERS M))
      \<and> XPRV_HEADERS_INV M = inv_dict (XPRV_HEADERS M)
      \<and> map (inverse_of_forward (XPRV_HEADERS M) (XPRV_HEADERS_INV M)) scheme_identifiers
          = map Some scheme_identifiers
      \<and> map fst (XPUB_HEADERS M) = scheme_identifiers
      \<and> distinct (map snd (XPUB_HEADERS M))
      \<and> XPUB_HEADERS_INV M = inv_dict (XPUB_HEADERS M)
      \<and> map (inverse_of_forward (XPUB_HEADERS M) (XPUB_HEADERS_INV M)) scheme_identifiers
          = map Some scheme_identifiers
      \<and> map fst (XPRV_HEADERS T) = scheme_identifiers
      \<and> distinct (map snd (XPRV_HEADERS T))
      \<and> XPRV_HEADERS_INV T = inv_dict (XPRV_HEADERS T)
      \<and> map (inverse_of_forward (XPRV_HEADERS T) (XPRV_HEADERS_INV T)) scheme_identifiers
          = map Some scheme_identifiers
      \<and> map fst (XPUB_HEADERS T) = scheme_identifiers
      \<and> distinct (map snd (XPUB_HEADERS T))
      \<and> XPUB_HEADERS_INV T = inv_dict (XPUB_HEADERS T)
      \<and> map (inverse_of_forward (XPUB_HEADERS T) (XPUB_HEADERS_INV T)) scheme_identifiers
          = map Some scheme_identifiers)
   \<and> (distinct (map snd d) \<and> dict_get d k = Some v \<longrightarrow>
        inverse_of_forward d (inv_dict d) k = Some k)"
proof (intro conjI impI)
  obtain M where M: "AIPGMainnet env = Inr M"
    and Mprv: "XPRV_HEADERS M = [(''standard'', 0x0488ade4), (''p2wpkh-p2sh'', 0x049d7878),
          (''p2wsh-p2sh'', 0x0295b005), (''p2wpkh'', 0x04b2430c), (''p2wsh'', 0x02aa7a99)]"
    and Mprv_inv: "XPRV_HEADERS_INV M = inv_dict (XPRV_HEADERS M)"
    and Mpub: "XPUB_HEADERS M = [(''standard'', 0x0488b21e), (''p2wpkh-p2sh'', 0x049d7cb2),
          (''p2wsh-p2sh'', 0x0295b43f), (''p2wpkh'', 0x04b24746), (''p2wsh'', 0x02aa7ed3)]"
    and Mpub_inv: "XPUB_HEADERS_INV M = inv_dict (XPUB_HEADERS M)"
    using AIPGMainnet_registry [of env] by blast
  obtain T where T: "AIPGTestnet env = Inr T"
    and Tprv: "XPRV_HEADERS T = [(''standard'', 0x04358394), (''p2wpkh-p2sh'', 0x044a4e28),
          (''p2wsh-p2sh'', 0x024285b5), (''p2wpkh'', 0x045f18bc), (''p2wsh'', 0x02575048)]"
    and Tprv_inv: "XPRV_HEADERS_INV T = inv_dict (XPRV_HEADERS T)"
    and Tpub: "XPUB_HEADERS T = [(''standard'', 0x043587cf), (''p2wpkh-p2sh'', 0x044a5262),
          (''p2wsh-p2sh'', 0x024289ef), (''p2wpkh'', 0x045f1cf6), (''p2wsh'', 0x02575483)]"
    and Tpub_inv: "XPUB_HEADERS_INV T = inv_dict (XPUB_HEADERS T)"
    using AIPGTestnet_registry [of env] by blast
  have a: "map fst (XPRV_HEADERS M) = scheme_identifiers"
    "distinct (map snd (XPRV_HEADERS M))"
    "map (inverse_of_forward (XPRV_HEADERS M) (XPRV_HEADERS_INV M)) scheme_identifiers
       = map Some scheme_identifiers"
    by (simp_all add: Mprv_inv, simp_all add: Mprv scheme_identifiers_def inverse_of_forward_def
        dict_get_def inv_dict_def)
  have b: "map fst (XPUB_HEADERS M) = scheme_identifiers"
    "distinct (map snd (XPUB_HEADERS M))"
    "map (inverse_of_forward (XPUB_HEADERS M) (XPUB_HEADERS_INV M)) scheme_identifiers
       = map Some scheme_identifiers"
    by (simp_all add: Mpub_inv, simp_all add: Mpub scheme_identifiers_def inverse_of_forward_def
        dict_get_def inv_dict_def)
  have c: "map fst (XPRV_HEADERS T) = scheme_identifiers"
    "distinct (map snd (XPRV_HEADERS T))"
    "map (inverse_of_forward (XPRV_HEADERS T) (XPRV_HEADERS_INV T)) scheme_identifiers
       = map Some scheme_identifiers"
    by (simp_all add: Tprv_inv, simp_all add: Tprv scheme_identifiers_def inverse_of_forward_def
        dict_get_def inv_dict_def)
  have d: "map fst (XPUB_HEADERS T) = scheme_identifiers"
    "distinct (map snd (XPUB_HEADERS T))"
    "map (inverse_of_forward (XPUB_HEADERS T) (XPUB_HEADERS_INV T)) scheme_identifiers
       = map Some scheme_identifiers"
    by (simp_all add: Tpub_inv, simp_all add: Tpub scheme_identifiers_def inverse_of_forward_def
        dict_get_def inv_dict_def)
  from M T a b c d Mprv_inv Mpub_inv Tprv_inv Tpub_inv
  show "\<exists>M T. AIPGMainnet env = Inr M \<and> AIPGTestnet env = Inr T
      \<and> map fst (XPRV_HEADERS M) = scheme_identifiers
      \<and> distinct (map snd (XPRV_HEADERS M))
      \<and> XPRV_HEADERS_INV M = inv_dict (XPRV_HEADERS M)
      \<and> map (inverse_of_forward (XPRV_HEADERS M) (XPRV_HEADERS_INV M)) scheme_identifiers
          = map Some scheme_identifiers
      \<and> map fst (XPUB_HEADERS M) = scheme_identifiers
      \<and> distinct (map snd (XPUB_HEADERS M))
      \<and> XPUB_HEADERS_INV M = inv_dict (XPUB_HEADERS M)
      \<and> map (inverse_of_forward (XPUB_HEADERS M) (XPUB_HEADERS_INV M)) scheme_identifiers
          = map Some scheme_identifiers
      \<and> map fst (XPRV_HEADERS T) = scheme_identifiers
      \<and> distinct (map snd (XPRV_HEADERS T))
      \<and> XPRV_HEADERS_INV T = inv_dict (XPRV_HEADERS T)
      \<and> map (inverse_of_forward (XPRV_HEADERS T) (XPRV_HEADERS_INV T)) scheme_identifiers
          = map Some scheme_identifiers
      \<and> map fst (XPUB_HEADERS T) = scheme_identifiers
      \<and> distinct (map snd (XPUB_HEADERS T))
      \<and> XPUB_HEADERS_INV T = inv_dict (XPUB_HEADERS T)
      \<and> map (inverse_of_forward (XPUB_HEADERS T) (XPUB_HEADERS_INV T)) scheme_identifiers
          = map Some scheme_identifiers"
    by blast
next
  assume "distinct (map snd d) \<and> dict_get d k = Some v"
  then show "inverse_of_forward d (inv_dict d) k = Some k"
    by (simp add: inverse_of_forward_def dict_get_def inv_dict_inverse)
qed

theorem version_maps_injective_witness:
  "distinct (map snd [(''standard'', 0x0488ade4 :: int), (''p2wpkh'', 0x04b2430c)])
   \<and> dict_get [(''standard'', 0x0488ade4 :: int), (''p2wpkh'', 0x04b2430c)] ''p2wpkh''
       = Some 0x04b2430c
   \<and> inverse_of_forward [(''standard'', 0x0488ade4 :: int), (''p2wpkh'', 0x04b2430c)]
       (inv_dict [(''standard'', 0x0488ade4), (''p2wpkh'', 0x04b2430c)]) ''p2wpkh''
       = Some ''p2wpkh''"
proof -
  have h: "distinct (map snd [(''standard'', 0x0488ade4 :: int), (''p2wpkh'', 0x04b2430c)])
     \<and> dict_get [(''standard'', 0x0488ade4 :: int), (''p2wpkh'', 0x04b2430c)] ''p2wpkh''
       = Some 0x04b2430c"
    by (simp add: dict_get_def)
  from version_maps_injective
    [of example_env "[(''standard'', 0x0488ade4 :: int), (''p2wpkh'', 0x04b2430c)]"
      "''p2wpkh''" "0x04b2430c"] h
  show ?thesis
    by blast
qed

section \<open>Address version bytes\<close>

text \<open>
  C10. In both profile classes the P2PKH and the P2SH address-type bytes are 23: they are
  equal to each other within a class and equal across the two classes.
\<close>

theorem address_version_bytes_coincide:
  "\<exists>M T. AIPGMainnet env = Inr M \<and> AIPGTestnet env = Inr T
     \<and> ADDRTYPE_P2PKH M = 23 \<and> ADDRTYPE_P2SH M = 23
     \<and> ADDRTYPE_P2PKH T = 23 \<and> ADDRTYPE_P2SH T = 23
     \<and> ADDRTYPE_P2PKH M = ADDRTYPE_P2SH M
     \<and> ADDRTYPE_P2PKH T = ADDRTYPE_P2SH T
     \<and> ADDRTYPE_P2PKH M = ADDRTYPE_P2PKH T
     \<and> ADDRTYPE_P2SH M = ADDRTYPE_P2SH T"
  by (simp add: class_defs)

section \<open>The burn tables\<close>

lemma bind_kwargs_Inr_iff:
  "(\<exists>vs. bind_kwargs names kwargs = Inr vs)
     \<longleftrightarrow> distinct (map fst kwargs) \<and> set (map fst kwargs) = set names"
proof -
  have a: "filter (\<lambda>k. k \<notin> set names) (map fst kwargs) = []
      \<longleftrightarrow> set (map fst kwargs) \<subseteq> set names"
    by (auto simp add: filter_empty_conv)
  have b: "filter (\<lambda>f. map_of kwargs f = None) names = []
      \<longleftrightarrow> set names \<subseteq> set (map fst kwargs)"
    by (auto simp add: filter_empty_conv map_of_eq_None_iff)
  show ?thesis
    using a b by (auto simp add: bind_kwargs_def simp del: set_map split: list.splits)
qed

lemma bind_kwargs_Inr:
  "bind_kwargs names kwargs = Inr vs \<Longrightarrow> vs = map (\<lambda>f. the (map_of kwargs f)) names
     \<and> set names \<subseteq> fst ` set kwargs"
  by (auto simp add: bind_kwargs_def filter_empty_conv map_of_eq_None_iff
      split: list.splits if_splits)

lemma new_BurnAmounts_Inr_iff:
  "(\<exists>t. new_BurnAmounts kwargs = Inr t)
     \<longleftrightarrow> distinct (map fst kwargs) \<and> set (map fst kwargs) = set BurnAmounts_field_names"
  using bind_kwargs_Inr_iff [of BurnAmounts_field_names kwargs]
  by (auto simp add: new_BurnAmounts_def simp del: set_map split: sum.splits)

lemma new_BurnAddresses_Inr_iff:
  "(\<exists>t. new_BurnAddresses kwargs = Inr t)
     \<longleftrightarrow> distinct (map fst kwargs) \<and> set (map fst kwargs) = set BurnAddresses_field_names"
  using bind_kwargs_Inr_iff [of BurnAddresses_field_names kwargs]
  by (auto simp add: new_BurnAddresses_def simp del: set_map split: sum.splits)

lemma new_BurnAmounts_tuple:
  assumes "new_BurnAmounts kwargs = Inr t"
  shows "map Some (BurnAmounts_tuple t) = map (map_of kwargs) BurnAmounts_field_names"
proof -
  from assms obtain vs where vs: "bind_kwargs BurnAmounts_field_names kwargs = Inr vs"
    and t: "t = \<lparr>
          IssueAssetBurnAmount = vs ! 0,
          ReissueAssetBurnAmount = vs ! 1,
          IssueSubAssetBurnAmount = vs ! 2,
          IssueUniqueAssetBurnAmount = vs ! 3,
          IssueMsgChannelAssetBurnAmount = vs ! 4,
          IssueQualifierAssetBurnAmount = vs ! 5,
          IssueSubQualifierAssetBurnAmount = vs ! 6,
          IssueRestrictedAssetBurnAmount = vs ! 7,
          AddNullQualifierTagBurnAmount = vs ! 8 \<rparr>"
    by (auto simp add: new_BurnAmounts_def split: sum.splits)
  from bind_kwargs_Inr [OF vs]
  have v: "vs = map (\<lambda>f. the (map_of kwargs f)) BurnAmounts_field_names"
    and k: "set BurnAmounts_field_names \<subseteq> fst ` set kwargs"
    by simp_all
  from k have "\<forall>f \<in> set BurnAmounts_field_names. \<exists>y. map_of kwargs f = Some y"
    by (metis subsetD weak_map_of_SomeI map_of_eq_None_iff not_None_eq)
  then show ?thesis
    by (auto simp add: t v BurnAmounts_tuple_def BurnAmounts_field_names_def)
qed

lemma new_BurnAddresses_tuple:
  assumes "new_BurnAddresses kwargs = Inr t"
  shows "map Some (BurnAddresses_tuple t) = map (map_of kwargs) BurnAddresses_field_names"
proof -
  from assms obtain vs where vs: "bind_kwargs BurnAddresses_field_names kwargs = Inr vs"
    and t: "t = \<lparr>
          IssueAssetBurnAddress = vs ! 0,
          ReissueAssetBurnAddress = vs ! 1,
          IssueSubAssetBurnAddress = vs ! 2,
          IssueUniqueAssetBurnAddress = vs ! 3,
          IssueMsgChannelAssetBurnAddress = vs ! 4,
          IssueQualifierAssetBurnAddress = vs ! 5,
          IssueSubQualifierAssetBurnAddress = vs ! 6,
          IssueRestrictedAssetBurnAddress = vs ! 7,
          AddNullQualifierTagBurnAddress = vs ! 8,
          GlobalBurnAddress = vs ! 9 \<rparr>"
    by (auto simp add: new_BurnAddresses_def split: sum.splits)
  from bind_kwargs_Inr [OF vs]
  have v: "vs = map (\<lambda>f. the (map_of kwargs f)) BurnAddresses_field_names"
    and k: "set BurnAddresses_field_names \<subseteq> fst ` set kwargs"
    by simp_all
  from k have "\<forall>f \<in> set BurnAddresses_field_names. \<exists>y. map_of kwargs f = Some y"
    by (metis subsetD weak_map_of_SomeI map_of_eq_None_iff not_None_eq)
  then show ?thesis
    by (auto simp add: t v BurnAddresses_tuple_def BurnAddresses_field_names_def)
qed

lemma AIPGMainnet_burn:
  "\<exists>M. AIPGMainnet env = Inr M
     \<and> BurnAmounts_tuple (BURN_AMOUNTS M) =
         [PyInt 50, PyInt 10, PyInt 10, PyFloat (1 / 2), PyInt 10, PyInt 100, PyInt 10,
          PyInt 150, PyFloat (1 / 100)]
     \<and> BurnAddresses_tuple (BURN_ADDRESSES M) =
         [''AIissueAssetXXXXXXXXXXXXXXXXXhhZGt'', ''AIReissueAssetXXXXXXXXXXXXXXVEFAWu'',
          ''AIissueSubAssetXXXXXXXXXXXXXWcwhwL'', ''AIissueUniqueAssetXXXXXXXXXXWEAe58'',
          ''AIissueMsgChanneLAssetXXXXXXSjHvAY'', ''AIissueQuaLifierXXXXXXXXXXXXUgEDbC'',
          ''AIissueSubQuaLifierXXXXXXXXXVTzvv5'', ''AIissueRestrictedXXXXXXXXXXXXzJZ1q'',
          ''AIaddTagBurnXXXXXXXXXXXXXXXXZQm5ya'', ''AIBurnXXXXXXXXXXXXXXXXXXXXXXWUo9FV'']"
  by (simp add: class_defs BurnAmounts_tuple_def BurnAddresses_tuple_def)

lemma AIPGTestnet_burn:
  "\<exists>T. AIPGTestnet env = Inr T
     \<and> BurnAmounts_tuple (BURN_AMOUNTS T) =
         [PyInt 50, PyInt 10, PyInt 10, PyFloat (1 / 2), PyInt 10, PyInt 100, PyInt 10,
          PyInt 150, PyFloat (1 / 100)]
     \<and> BurnAddresses_tuple (BURN_ADDRESSES T) =
         [''n1issueAssetXXXXXXXXXXXXXXXXWdnemQ'', ''n1ReissueAssetXXXXXXXXXXXXXXWG9NLd'',
          ''n1issueSubAssetXXXXXXXXXXXXXbNiH6v'', ''n1issueUniqueAssetXXXXXXXXXXS4695i'',
          ''n1issueMsgChanneLAssetXXXXXXT2PBdD'', ''n1issueQuaLifierXXXXXXXXXXXXUysLTj'',
          ''n1issueSubQuaLifierXXXXXXXXXYffPLh'', ''n1issueRestrictedXXXXXXXXXXXXZVT9V'',
          ''n1addTagBurnXXXXXXXXXXXXXXXXX5oLMH'', ''AcYHNBj8C6nCFSpu1ANsJxturWp31W32cd'']"
  by (simp add: class_defs BurnAmounts_tuple_def BurnAddresses_tuple_def)

text \<open>
  C9. Constructing a burn table succeeds exactly when the keywords of the call are
  pairwise different and are the fields of the table, nine for the amounts and ten for
  the addresses, the field names being distinct; a missing entry, a foreign one and one
  given twice each raise \<^verbatim>\<open>TypeError\<close> at construction. A constructed table holds for
  each field the one value given under its name. The class statements of
  both profiles construct their tables, and none of the nine amounts of either is negative.
\<close>

theorem burn_tables_exhaustive:
  "((\<exists>t. new_BurnAmounts amount_kwargs = Inr t)
       \<longleftrightarrow> distinct (map fst amount_kwargs)
           \<and> set (map fst amount_kwargs) = set BurnAmounts_field_names)
   \<and> ((\<exists>t. new_BurnAddresses address_kwargs = Inr t)
       \<longleftrightarrow> distinct (map fst address_kwargs)
           \<and> set (map fst address_kwargs) = set BurnAddresses_field_names)
   \<and> (new_BurnAmounts amount_kwargs = Inr amounts \<longrightarrow>
        map Some (BurnAmounts_tuple amounts)
          = map (map_of amount_kwargs) BurnAmounts_field_names)
   \<and> (new_BurnAddresses address_kwargs = Inr addresses \<longrightarrow>
        map Some (BurnAddresses_tuple addresses)
          = map (map_of address_kwargs) BurnAddresses_field_names)
   \<and> length BurnAmounts_field_names = 9 \<and> distinct BurnAmounts_field_names
   \<and> length BurnAddresses_field_names = 10 \<and> distinct BurnAddresses_field_names
   \<and> (\<exists>M T. AIPGMainnet env = Inr M \<and> AIPGTestnet env = Inr T
        \<and> length (BurnAmounts_tuple (BURN_AMOUNTS M)) = 9
        \<and> length (BurnAddresses_tuple (BURN_ADDRESSES M)) = 10
        \<and> list_all (\<lambda>a. 0 \<le> num_value a) (BurnAmounts_tuple (BURN_AMOUNTS M))
        \<and> length (BurnAmounts_tuple (BURN_AMOUNTS T)) = 9
        \<and> length (BurnAddresses_tuple (BURN_ADDRESSES T)) = 10
        \<and> list_all (\<lambda>a. 0 \<le> num_value a) (BurnAmounts_tuple (BURN_AMOUNTS T)))"
proof -
  obtain M where M: "AIPGMainnet env = Inr M"
    and Ma: "BurnAmounts_tuple (BURN_AMOUNTS M) =
         [PyInt 50, PyInt 10, PyInt 10, PyFloat (1 / 2), PyInt 10, PyInt 100, PyInt 10,
          PyInt 150, PyFloat (1 / 100)]"
    using AIPGMainnet_burn [of env] by blast
  obtain T where T: "AIPGTestnet env = Inr T"
    and Ta: "BurnAmounts_tuple (BURN_AMOUNTS T) =
         [PyInt 50, PyInt 10, PyInt 10, PyFloat (1 / 2), PyInt 10, PyInt 100, PyInt 10,
          PyInt 150, PyFloat (1 / 100)]"
    using AIPGTestnet_burn [of env] by blast
  have nonneg: "list_all (\<lambda>a. 0 \<le> num_value a) (BurnAmounts_tuple (BURN_AMOUNTS M))"
    "list_all (\<lambda>a. 0 \<le> num_value a) (BurnAmounts_tuple (BURN_AMOUNTS T))"
    by (simp_all add: Ma Ta)
  have len: "length (BurnAmounts_tuple (BURN_AMOUNTS M)) = 9"
    "length (BurnAddresses_tuple (BURN_ADDRESSES M)) = 10"
    "length (BurnAmounts_tuple (BURN_AMOUNTS T)) = 9"
    "length (BurnAddresses_tuple (BURN_ADDRESSES T)) = 10"
    by (simp_all add: BurnAmounts_tuple_def BurnAddresses_tuple_def)
  have names: "length BurnAmounts_field_names = 9" "distinct BurnAmounts_field_names"
    "length BurnAddresses_field_names = 10" "distinct BurnAddresses_field_names"
    by (simp_all add: BurnAmounts_field_names_def BurnAddresses_field_names_def)
  from M T nonneg len
  have profiles: "\<exists>M T. AIPGMainnet env = Inr M \<and> AIPGTestnet env = Inr T
        \<and> length (BurnAmounts_tuple (BURN_AMOUNTS M)) = 9
        \<and> length (BurnAddresses_tuple (BURN_ADDRESSES M)) = 10
        \<and> list_all (\<lambda>a. 0 \<le> num_value a) (BurnAmounts_tuple (BURN_AMOUNTS M))
        \<and> length (BurnAmounts_tuple (BURN_AMOUNTS T)) = 9
        \<and> length (BurnAddresses_tuple (BURN_ADDRESSES T)) = 10
        \<and> list_all (\<lambda>a. 0 \<le> num_value a) (BurnAmounts_tuple (BURN_AMOUNTS T))"
    by blast
  from new_BurnAmounts_Inr_iff [of amount_kwargs]
    new_BurnAddresses_Inr_iff [of address_kwargs]
    new_BurnAmounts_tuple [of amount_kwargs amounts]
    new_BurnAddresses_tuple [of address_kwargs addresses]
    names profiles
  show ?thesis
    by blast
qed

theorem burn_tables_exhaustive_witness:
  "new_BurnAmounts example_amount_kwargs = Inr \<lparr>
      IssueAssetBurnAmount = PyInt 50,
      ReissueAssetBurnAmount = PyInt 10,
      IssueSubAssetBurnAmount = PyInt 10,
      IssueUniqueAssetBurnAmount = PyFloat (1 / 2),
      IssueMsgChannelAssetBurnAmount = PyInt 10,
      IssueQualifierAssetBurnAmount = PyInt 100,
      IssueSubQualifierAssetBurnAmount = PyInt 10,
      IssueRestrictedAssetBurnAmount = PyInt 150,
      AddNullQualifierTagBurnAmount = PyFloat (1 / 100) \<rparr>
   \<and> map (map_of example_amount_kwargs) BurnAmounts_field_names =
       [Some (PyInt 50), Some (PyInt 10), Some (PyInt 10), Some (PyFloat (1 / 2)),
        Some (PyInt 10), Some (PyInt 100), Some (PyInt 10), Some (PyInt 150),
        Some (PyFloat (1 / 100))]
   \<and> new_BurnAddresses example_address_kwargs = Inr \<lparr>
      IssueAssetBurnAddress = ''a1'',
      ReissueAssetBurnAddress = ''a2'',
      IssueSubAssetBurnAddress = ''a3'',
      IssueUniqueAssetBurnAddress = ''a4'',
      IssueMsgChannelAssetBurnAddress = ''a5'',
      IssueQualifierAssetBurnAddress = ''a6'',
      IssueSubQualifierAssetBurnAddress = ''a7'',
      IssueRestrictedAssetBurnAddress = ''a8'',
      AddNullQualifierTagBurnAddress = ''a9'',
      GlobalBurnAddress = ''a10'' \<rparr>
   \<and> map (map_of example_address_kwargs) BurnAddresses_field_names =
       [Some ''a1'', Some ''a2'', Some ''a3'', Some ''a4'', Some ''a5'', Some ''a6'',
        Some ''a7'', Some ''a8'', Some ''a9'', Some ''a10'']
   \<and> (\<forall>t. new_BurnAmounts (tl example_amount_kwargs) \<noteq> Inr t)
   \<and> (\<forall>t. new_BurnAddresses (butlast example_address_kwargs) \<noteq> Inr t)
   \<and> (\<forall>t. new_BurnAmounts (example_amount_kwargs @ [(''IssueAssetBurnAmount'', PyInt 7)])
          \<noteq> Inr t)
   \<and> (\<forall>t. new_BurnAddresses (example_address_kwargs @ [(''GlobalBurnAddress'', ''a11'')])
          \<noteq> Inr t)"
proof -
  let ?amounts = "\<lparr>
      IssueAssetBurnAmount = PyInt 50,
      ReissueAssetBurnAmount = PyInt 10,
      IssueSubAssetBurnAmount = PyInt 10,
      IssueUniqueAssetBurnAmount = PyFloat (1 / 2),
      IssueMsgChannelAssetBurnAmount = PyInt 10,
      IssueQualifierAssetBurnAmount = PyInt 100,
      IssueSubQualifierAssetBurnAmount = PyInt 10,
      IssueRestrictedAssetBurnAmount = PyInt 150,
      AddNullQualifierTagBurnAmount = PyFloat (1 / 100) \<rparr>"
  let ?addresses = "\<lparr>
      IssueAssetBurnAddress = ''a1'',
      ReissueAssetBurnAddress = ''a2'',
      IssueSubAssetBurnAddress = ''a3'',
      IssueUniqueAssetBurnAddress = ''a4'',
      IssueMsgChannelAssetBurnAddress = ''a5'',
      IssueQualifierAssetBurnAddress = ''a6'',
      IssueSubQualifierAssetBurnAddress = ''a7'',
      IssueRestrictedAssetBurnAddress = ''a8'',
      AddNullQualifierTagBurnAddress = ''a9'',
      GlobalBurnAddress = ''a10'' \<rparr>"
  have a: "new_BurnAmounts example_amount_kwargs = Inr ?amounts"
    by (simp add: class_defs example_amount_kwargs_def)
  have b: "new_BurnAddresses example_address_kwargs = Inr ?addresses"
    by (simp add: class_defs example_address_kwargs_def)
  have ta: "map Some (BurnAmounts_tuple ?amounts) =
       [Some (PyInt 50), Some (PyInt 10), Some (PyInt 10), Some (PyFloat (1 / 2)),
        Some (PyInt 10), Some (PyInt 100), Some (PyInt 10), Some (PyInt 150),
        Some (PyFloat (1 / 100))]"
    by (simp add: BurnAmounts_tuple_def)
  have tb: "map Some (BurnAddresses_tuple ?addresses) =
       [Some ''a1'', Some ''a2'', Some ''a3'', Some ''a4'', Some ''a5'', Some ''a6'',
        Some ''a7'', Some ''a8'', Some ''a9'', Some ''a10'']"
    by (simp add: BurnAddresses_tuple_def)
  have "''IssueAssetBurnAmount'' \<in> set BurnAmounts_field_names"
    and "''IssueAssetBurnAmount'' \<notin> set (map fst (tl example_amount_kwargs))"
    and "''GlobalBurnAddress'' \<in> set BurnAddresses_field_names"
    and "''GlobalBurnAddress'' \<notin> set (map fst (butlast example_address_kwargs))"
    by (simp_all add: example_amount_kwargs_def example_address_kwargs_def
        BurnAmounts_field_names_def BurnAddresses_field_names_def)
  then have missing:
    "set (map fst (tl example_amount_kwargs)) \<noteq> set BurnAmounts_field_names"
    "set (map fst (butlast example_address_kwargs)) \<noteq> set BurnAddresses_field_names"
    by metis+
  from burn_tables_exhaustive
    [where amount_kwargs = example_amount_kwargs and address_kwargs = example_address_kwargs
      and amounts = "?amounts" and addresses = "?addresses" and env = example_env] a b
  have "map Some (BurnAmounts_tuple ?amounts)
      = map (map_of example_amount_kwargs) BurnAmounts_field_names"
    and "map Some (BurnAddresses_tuple ?addresses)
      = map (map_of example_address_kwargs) BurnAddresses_field_names"
    by blast+
  with ta tb have maps: "map (map_of example_amount_kwargs) BurnAmounts_field_names =
       [Some (PyInt 50), Some (PyInt 10), Some (PyInt 10), Some (PyFloat (1 / 2)),
        Some (PyInt 10), Some (PyInt 100), Some (PyInt 10), Some (PyInt 150),
        Some (PyFloat (1 / 100))]"
    "map (map_of example_address_kwargs) BurnAddresses_field_names =
       [Some ''a1'', Some ''a2'', Some ''a3'', Some ''a4'', Some ''a5'', Some ''a6'',
        Some ''a7'', Some ''a8'', Some ''a9'', Some ''a10'']"
    by simp_all
  from burn_tables_exhaustive
    [where amount_kwargs = "tl example_amount_kwargs"
      and address_kwargs = "butlast example_address_kwargs"
      and amounts = "?amounts" and addresses = "?addresses" and env = example_env] missing
  have none: "\<forall>t. new_BurnAmounts (tl example_amount_kwargs) \<noteq> Inr t"
    "\<forall>t. new_BurnAddresses (butlast example_address_kwargs) \<noteq> Inr t"
    by blast+
  have repeated:
    "\<not> distinct (map fst (example_amount_kwargs @ [(''IssueAssetBurnAmount'', PyInt 7)]))"
    "\<not> distinct (map fst (example_address_kwargs @ [(''GlobalBurnAddress'', ''a11'')]))"
    by (simp_all add: example_amount_kwargs_def example_address_kwargs_def)
  from burn_tables_exhaustive
    [where amount_kwargs = "example_amount_kwargs @ [(''IssueAssetBurnAmount'', PyInt 7)]"
      and address_kwargs = "example_address_kwargs @ [(''GlobalBurnAddress'', ''a11'')]"
      and amounts = "?amounts" and addresses = "?addresses" and env = example_env] repeated
  have twice:
    "\<forall>t. new_BurnAmounts (example_amount_kwargs @ [(''IssueAssetBurnAmount'', PyInt 7)])
        \<noteq> Inr t"
    "\<forall>t. new_BurnAddresses (example_address_kwargs @ [(''GlobalBurnAddress'', ''a11'')])
        \<noteq> Inr t"
    by blast+
  from a b maps none twice show ?thesis
    by blast
qed

section \<open>The genesis hash\<close>

lemma hex_digits_table:
  "list_all (\<lambda>n. hex_digit_value (hex_digit n) = Some n) [0..<16]"
  by code_simp

lemma hex_digit_value_hex_digit:
  assumes "n < 16"
  shows "hex_digit_value (hex_digit n) = Some n"
proof -
  from assms have "n \<in> set [0..<16]"
    by simp
  with hex_digits_table show ?thesis
    unfolding list_all_iff by blast
qed

lemma hex_digit_not_space:
  "hex_digit_value c \<noteq> None \<Longrightarrow> \<not> py_isspace c"
  by (auto simp add: hex_digit_value_def py_isspace_def Let_def split: if_splits)

lemma byte_of_digits: "of_nat (16 * (unat b div 16) + unat b mod 16) = (b :: byte)"
  by simp

lemma bytes_fromhex_bytes_hex: "bytes_fromhex (bytes_hex bs) = Inr bs"
proof (induction bs)
  case Nil
  show ?case by (simp add: bytes_hex_def)
next
  case (Cons b bs)
  have hi: "unat b div 16 < 16"
  proof -
    have "unat b < 256"
      using unsigned_less [of b, where ?'a = nat] by simp
    then show ?thesis
      by arith
  qed
  have lo: "unat b mod 16 < 16"
    by simp
  have sp: "\<not> py_isspace (hex_digit (unat b div 16))"
    using hex_digit_value_hex_digit [OF hi] by (intro hex_digit_not_space) simp
  from Cons.IH have ih: "bytes_fromhex (bytes_hex bs) = Inr bs" .
  have "bytes_hex (b # bs)
      = hex_digit (unat b div 16) # hex_digit (unat b mod 16) # bytes_hex bs"
    by (simp add: bytes_hex_def)
  then show ?case
    using hex_digit_value_hex_digit [OF hi] hex_digit_value_hex_digit [OF lo] sp ih
    by (simp del: of_nat_add of_nat_mult add: byte_of_digits)
qed

lemma valid_hex_decodes:
  "valid_hex s \<Longrightarrow> \<exists>bs. bytes_fromhex s = Inr bs \<and> 2 * length bs = length s"
proof (induction s rule: bytes_fromhex.induct)
  case 1
  show ?case by simp
next
  case (2 c)
  then show ?case by (simp add: valid_hex_def)
next
  case (3 c d cs)
  from "3.prems" have c: "hex_digit_value c \<noteq> None" and d: "hex_digit_value d \<noteq> None"
    and rest: "valid_hex cs"
    by (simp_all add: valid_hex_def)
  from c have sp: "\<not> py_isspace c"
    by (rule hex_digit_not_space)
  from c d obtain hi lo
    where hi: "hex_digit_value c = Some hi" and lo: "hex_digit_value d = Some lo"
    by auto
  from "3.IH"(2) [OF sp refl hi lo] rest
  obtain bs where "bytes_fromhex cs = Inr bs" and "2 * length bs = length cs"
    by auto
  with sp hi lo show ?case
    by simp
qed

text \<open>
  C7. When \<open>GENESIS\<close> is a valid hex string of even length, it decodes to some bytes
  \<open>bs\<close>, half as many as it has characters, and \<open>rev_genesis_bytes\<close> returns exactly
  \<open>rev bs\<close>, so reversing the result gives \<open>bs\<close> back. When \<open>GENESIS\<close> is not a valid
  hex string of even length, \<open>rev_genesis_bytes\<close> raises \<^verbatim>\<open>ValueError\<close>.
\<close>

theorem rev_genesis_bytes_reverses:
  "(valid_hex (GENESIS P) \<longrightarrow>
      (\<exists>bs. bytes_fromhex (GENESIS P) = Inr bs \<and> 2 * length bs = length (GENESIS P)
          \<and> rev_genesis_bytes P = Inr (rev bs)
          \<and> (\<exists>r. rev_genesis_bytes P = Inr r \<and> rev r = bs)))
   \<and> (\<not> valid_hex (GENESIS P) \<longrightarrow> (\<exists>msg. rev_genesis_bytes P = Inl (ValueError msg)))"
proof (intro conjI impI)
  assume v: "valid_hex (GENESIS P)"
  from valid_hex_decodes [OF v] obtain bs
    where bs: "bytes_fromhex (GENESIS P) = Inr bs" and len: "2 * length bs = length (GENESIS P)"
    by blast
  from v bs have "rev_hex (GENESIS P) = Inr (bytes_hex (rev bs))"
    by (simp add: rev_hex_def)
  then have r: "rev_genesis_bytes P = Inr (rev bs)"
    by (simp add: rev_genesis_bytes_def bytes_fromhex_bytes_hex)
  with bs len
  show "\<exists>bs. bytes_fromhex (GENESIS P) = Inr bs \<and> 2 * length bs = length (GENESIS P)
          \<and> rev_genesis_bytes P = Inr (rev bs)
          \<and> (\<exists>r. rev_genesis_bytes P = Inr r \<and> rev r = bs)"
    by simp
next
  assume "\<not> valid_hex (GENESIS P)"
  then show "\<exists>msg. rev_genesis_bytes P = Inl (ValueError msg)"
    by (simp add: rev_genesis_bytes_def rev_hex_def)
qed

lemma AIPGMainnet_genesis:
  "\<exists>M. AIPGMainnet env = Inr M \<and> valid_hex (GENESIS M)
     \<and> bytes_fromhex (GENESIS M) =
         Inr [0x00, 0x00, 0x00, 0xfe, 0x8c, 0x99, 0xa7, 0xaa, 0xcc, 0x5a, 0xff, 0x07, 0x42,
              0x78, 0xa8, 0x37, 0x8e, 0x62, 0x5c, 0x0d, 0x02, 0xe4, 0x89, 0x4d, 0xb8, 0xf0,
              0x9b, 0xab, 0x18, 0x5f, 0x4e, 0xb6]"
  by (simp add: class_defs valid_hex_def hex_digit_value_def py_isspace_def)

theorem rev_genesis_bytes_reverses_witness:
  "\<exists>M. AIPGMainnet example_env = Inr M
     \<and> valid_hex (GENESIS M)
     \<and> rev_genesis_bytes M =
         Inr [0xb6, 0x4e, 0x5f, 0x18, 0xab, 0x9b, 0xf0, 0xb8, 0x4d, 0x89, 0xe4, 0x02, 0x0d,
              0x5c, 0x62, 0x8e, 0x37, 0xa8, 0x78, 0x42, 0x07, 0xff, 0x5a, 0xcc, 0xaa, 0xa7,
              0x99, 0x8c, 0xfe, 0x00, 0x00, 0x00]
     \<and> \<not> valid_hex (GENESIS (M\<lparr>GENESIS := ''00fg''\<rparr>))
     \<and> (\<exists>msg. rev_genesis_bytes (M\<lparr>GENESIS := ''00fg''\<rparr>) = Inl (ValueError msg))"
proof -
  obtain M where M: "AIPGMainnet example_env = Inr M" and v: "valid_hex (GENESIS M)"
    and b: "bytes_fromhex (GENESIS M) =
         Inr [0x00, 0x00, 0x00, 0xfe, 0x8c, 0x99, 0xa7, 0xaa, 0xcc, 0x5a, 0xff, 0x07, 0x42,
              0x78, 0xa8, 0x37, 0x8e, 0x62, 0x5c, 0x0d, 0x02, 0xe4, 0x89, 0x4d, 0xb8, 0xf0,
              0x9b, 0xab, 0x18, 0x5f, 0x4e, 0xb6]"
    using AIPGMainnet_genesis [of example_env] by blast
  from rev_genesis_bytes_reverses [of M] v b
  have r: "rev_genesis_bytes M =
         Inr [0xb6, 0x4e, 0x5f, 0x18, 0xab, 0x9b, 0xf0, 0xb8, 0x4d, 0x89, 0xe4, 0x02, 0x0d,
              0x5c, 0x62, 0x8e, 0x37, 0xa8, 0x78, 0x42, 0x07, 0xff, 0x5a, 0xcc, 0xaa, 0xa7,
              0x99, 0x8c, 0xfe, 0x00, 0x00, 0x00]"
    by auto
  have n: "\<not> valid_hex (GENESIS (M\<lparr>GENESIS := ''00fg''\<rparr>))"
    by (simp add: valid_hex_def hex_digit_value_def)
  from rev_genesis_bytes_reverses [of "M\<lparr>GENESIS := ''00fg''\<rparr>"] n
  have e: "\<exists>msg. rev_genesis_bytes (M\<lparr>GENESIS := ''00fg''\<rparr>) = Inl (ValueError msg)"
    by blast
  from M v r n e show ?thesis
    by blast
qed

section \<open>The network selector\<close>

lemma Ravencoin_names_unbound:
  "full_namespace env M T n ''RavencoinMainnet'' = None"
  "full_namespace env M T n ''RavencoinTestnet'' = None"
  "''RavencoinMainnet'' \<notin> set builtin_names"
  "''RavencoinTestnet'' \<notin> set builtin_names"
  by (simp_all add: full_namespace_def module_names_def builtin_names_def)

lemma switches_raise:
  "set_mainnet (full_namespace env M T n) = Inl (NameError ''RavencoinMainnet'')"
  "set_testnet (full_namespace env M T n) = Inl (NameError ''RavencoinTestnet'')"
  by (simp_all add: set_mainnet_def set_testnet_def lookup_name_def Ravencoin_names_unbound)

text \<open>
  C2. Executing the module raises \<^verbatim>\<open>NameError\<close> for \<^verbatim>\<open>RavencoinMainnet\<close> and yields no
  namespace, hence no active profile. In the namespace with every name the module's
  statements bind, the profile classes are bound to \<^verbatim>\<open>AIPGMainnet\<close> and
  \<^verbatim>\<open>AIPGTestnet\<close>, the names \<^verbatim>\<open>RavencoinMainnet\<close> and \<^verbatim>\<open>RavencoinTestnet\<close> are unbound, and
  both switch operations raise \<^verbatim>\<open>NameError\<close>, whatever \<^verbatim>\<open>net\<close> is bound to.
\<close>

theorem exec_module_raises_NameError:
  "exec_module env = Inl (NameError ''RavencoinMainnet'')
   \<and> (\<exists>M T. AIPGMainnet env = Inr M \<and> AIPGTestnet env = Inr T
        \<and> full_namespace env M T n ''AIPGMainnet'' = Some (ProfileClass M)
        \<and> full_namespace env M T n ''AIPGTestnet'' = Some (ProfileClass T)
        \<and> full_namespace env M T n ''RavencoinMainnet'' = None
        \<and> full_namespace env M T n ''RavencoinTestnet'' = None
        \<and> set_mainnet (full_namespace env M T n) = Inl (NameError ''RavencoinMainnet'')
        \<and> set_testnet (full_namespace env M T n) = Inl (NameError ''RavencoinTestnet''))"
proof -
  obtain M where M: "AIPGMainnet env = Inr M"
    using AIPGMainnet_succeeds by blast
  obtain T where T: "AIPGTestnet env = Inr T"
    using AIPGTestnet_succeeds by blast
  have m: "module_names env M T ''RavencoinMainnet'' = None"
    by (simp add: module_names_def)
  have e: "exec_module env = Inl (NameError ''RavencoinMainnet'')"
    by (simp add: exec_module_def M T lookup_name_def m Ravencoin_names_unbound)
  have c: "full_namespace env M T n ''AIPGMainnet'' = Some (ProfileClass M)"
    "full_namespace env M T n ''AIPGTestnet'' = Some (ProfileClass T)"
    by (simp_all add: full_namespace_def module_names_def)
  from e M T c Ravencoin_names_unbound(1,2) [of env M T n] switches_raise [of env M T n]
  show ?thesis
    by blast
qed

text \<open>
  C1, evaluated on the code. Switching to the test network and then reading
  \<open>WIF_PREFIX\<close> through \<^verbatim>\<open>net\<close> raises \<^verbatim>\<open>NameError\<close> for \<^verbatim>\<open>RavencoinTestnet\<close> instead of
  returning 239, and switching to the main network raises it for \<^verbatim>\<open>RavencoinMainnet\<close>
  instead of returning 128. Were the name of the assignment bound to the test network's
  class, every attribute read after the switch would come from that class.
\<close>

theorem switch_then_read_raises:
  "\<exists>M T. AIPGMainnet env = Inr M \<and> AIPGTestnet env = Inr T
     \<and> WIF_PREFIX M = 128 \<and> WIF_PREFIX T = 239
     \<and> (case set_testnet (full_namespace env M T n) of
           Inl e \<Rightarrow> Inl e
         | Inr g \<Rightarrow> read_net WIF_PREFIX g) = Inl (NameError ''RavencoinTestnet'')
     \<and> (case set_mainnet (full_namespace env M T n) of
           Inl e \<Rightarrow> Inl e
         | Inr g \<Rightarrow> read_net WIF_PREFIX g) = Inl (NameError ''RavencoinMainnet'')
     \<and> (case set_testnet
               ((full_namespace env M T n)(''RavencoinTestnet'' \<mapsto> ProfileClass T)) of
           Inl e \<Rightarrow> Inl e
         | Inr g \<Rightarrow> read_net attr g) = Inr (attr T)"
proof -
  obtain M where M: "AIPGMainnet env = Inr M" and wm: "WIF_PREFIX M = 128"
    using AIPGMainnet_succeeds [of env] by (auto simp add: class_defs)
  obtain T where T: "AIPGTestnet env = Inr T" and wt: "WIF_PREFIX T = 239"
    using AIPGTestnet_succeeds [of env] by (auto simp add: class_defs)
  have fixed: "(case set_testnet
               ((full_namespace env M T n)(''RavencoinTestnet'' \<mapsto> ProfileClass T)) of
           Inl e \<Rightarrow> Inl e
         | Inr g \<Rightarrow> read_net attr g) = Inr (attr T)"
    by (simp add: set_testnet_def lookup_name_def read_net_def)
  from M T wm wt fixed show ?thesis
    by (auto simp add: switches_raise)
qed

end
